theory Spec2Isabelle
  imports Main "HOL-Library.Word"
begin

section \<open>Strings of the Go standard library\<close>

text \<open>
  A Go string is a sequence of bytes; it is modelled as \<open>string\<close> (a list of 8-bit
  characters). The functions of package \<open>strings\<close> that the repository calls are
  modelled below the way Go computes them on ASCII text: \<open>ToLower\<close> maps the bytes
  \<open>A\<close>..\<open>Z\<close> and leaves every other byte alone, \<open>TrimSpace\<close> strips the six ASCII
  white-space bytes. On text outside ASCII Go consults the Unicode tables, which are not
  part of this development: there \<open>strings.ToLower\<close> may map other letters and change
  the length, and \<open>strings.TrimSpace\<close> strips further white space.
\<close>

text \<open>A run-time panic of the Go program.\<close>

datatype panic = IndexOutOfRange | SliceBoundsOutOfRange

text \<open>A Go \<open>error\<close> value, identified by its message; \<open>nil\<close> is \<open>None\<close>.\<close>

datatype go_error = Errorf string

fun HasPrefix :: "string \<Rightarrow> string \<Rightarrow> bool" where
  "HasPrefix s [] = True"
| "HasPrefix [] (p # ps) = False"
| "HasPrefix (c # cs) (p # ps) = (c = p \<and> HasPrefix cs ps)"

text \<open>\<open>strings.Index\<close>: the byte offset of the first occurrence, or \<open>-1\<close>.\<close>

fun Index :: "string \<Rightarrow> string \<Rightarrow> int" where
  "Index [] sub = (if sub = [] then 0 else - 1)"
| "Index (c # cs) sub =
     (if HasPrefix (c # cs) sub then 0
      else (let k = Index cs sub in if k < 0 then - 1 else k + 1))"

text \<open>\<open>strings.LastIndex\<close>: the byte offset of the last occurrence, or \<open>-1\<close>.\<close>

fun LastIndex :: "string \<Rightarrow> string \<Rightarrow> int" where
  "LastIndex [] sub = (if sub = [] then 0 else - 1)"
| "LastIndex (c # cs) sub =
     (let k = LastIndex cs sub in
      if 0 \<le> k then k + 1
      else if HasPrefix (c # cs) sub then 0 else - 1)"

definition toLowerByte :: "char \<Rightarrow> char" where
  "toLowerByte c =
     (let n = (of_char c :: nat) in
      if of_char CHR ''A'' \<le> n \<and> n \<le> of_char CHR ''Z''
      then char_of (n + (of_char CHR ''a'' - of_char CHR ''A'')) else c)"

definition ToLower :: "string \<Rightarrow> string" where
  "ToLower s = map toLowerByte s"

text \<open>
  Whether a string is ASCII text, the case in which \<open>ToLower\<close> above is Go's
  \<open>strings.ToLower\<close>. Statements about what the code computes through \<open>ToLower\<close> for an
  arbitrary input carry it as a hypothesis.
\<close>

definition isASCII :: "string \<Rightarrow> bool" where
  "isASCII s = list_all (\<lambda>c. (of_char c :: nat) < 128) s"

definition isSpaceByte :: "char \<Rightarrow> bool" where
  "isSpaceByte c = (of_char c \<in> {9, 10, 11, 12, 13, 32 :: nat})"

definition TrimSpace :: "string \<Rightarrow> string" where
  "TrimSpace s = rev (dropWhile isSpaceByte (rev (dropWhile isSpaceByte s)))"

lemma HasPrefix_length: "HasPrefix t p \<Longrightarrow> length p \<le> length t"
  by (induction t p rule: HasPrefix.induct) auto

lemma Index_upper: "0 \<le> Index s sub \<Longrightarrow> nat (Index s sub) + length sub \<le> length s"
proof (induction s)
  case Nil
  then show ?case by (simp split: if_splits)
next
  case (Cons c cs)
  show ?case
  proof (cases "HasPrefix (c # cs) sub")
    case True
    from HasPrefix_length [OF True] True show ?thesis by simp
  next
    case False
    with Cons.prems have k: "0 \<le> Index cs sub"
      by (simp add: Let_def split: if_splits)
    with Cons.IH have "nat (Index cs sub) + length sub \<le> length cs" by simp
    with False k show ?thesis by (simp add: Let_def nat_add_distrib)
  qed
qed

text \<open>
  \<open>strings.Split\<close>: with an empty separator the string is exploded into its bytes;
  otherwise the pieces between the successive, non-overlapping occurrences of the
  separator, found from the left with \<open>Index\<close>.
\<close>

function Split :: "string \<Rightarrow> string \<Rightarrow> string list" where
  "Split s sep =
     (if sep = [] then map (\<lambda>c. [c]) s
      else (let i = Index s sep in
            if i < 0 then [s]
            else take (nat i) s # Split (drop (nat i + length sep) s) sep))"
  by pat_completeness auto
termination
proof (relation "measure (\<lambda>(s, sep). length s)")
  show "wf (measure (\<lambda>(s, sep). length s))" by simp
next
  fix s sep :: string and i :: int
  assume sep: "sep \<noteq> []" and i: "i = Index s sep" and nn: "\<not> i < 0"
  from i nn have "nat i + length sep \<le> length s"
    by (simp add: Index_upper)
  moreover from sep have "0 < length sep" by simp
  ultimately have "length s - (nat i + length sep) < length s" by arith
  then show "((drop (nat i + length sep) s, sep), (s, sep)) \<in> measure (\<lambda>(s, sep). length s)"
    by simp
qed

declare Split.simps [simp del]

text \<open>
  Indexing \<open>xs[i]\<close> and slicing \<open>s[i:]\<close>: Go panics outside the bounds, so both
  return a sum whose left side is the panic.
\<close>

definition at_index :: "'a list \<Rightarrow> int \<Rightarrow> panic + 'a" where
  "at_index xs i =
     (if 0 \<le> i \<and> i < int (length xs) then Inr (xs ! nat i) else Inl IndexOutOfRange)"

definition slice_from :: "string \<Rightarrow> int \<Rightarrow> panic + string" where
  "slice_from s i =
     (if 0 \<le> i \<and> i \<le> int (length s) then Inr (drop (nat i) s)
      else Inl SliceBoundsOutOfRange)"

text \<open>Sequencing of computations that may panic: a panic ends the computation.\<close>

definition and_then :: "panic + 'a \<Rightarrow> ('a \<Rightarrow> panic + 'b) \<Rightarrow> panic + 'b" where
  "and_then m f = (case m of Inl p \<Rightarrow> Inl p | Inr x \<Rightarrow> f x)"

section \<open>Package uri: the identifier parser\<close>

definition netAppResourceProviderName :: string where
  "netAppResourceProviderName = ''Microsoft.NetApp''"

text \<open>
  \<open>GetResourceValue\<close> (uri.go, lines 24 to 62). The two early returns, the two
  normalisations with a leading slash, the branch for a resource named like its resource
  group, which splits the lower-cased identifier and indexes the pieces without a length
  check, and the regular branch, which slices the identifier as given and checks the
  number of pieces.
\<close>

definition GetResourceValue :: "string \<Rightarrow> string \<Rightarrow> panic + string" where
  "GetResourceValue resourceURI0 resourceName0 =
     (if length (TrimSpace resourceURI0) = 0 then Inr ''''
      else if length (TrimSpace resourceName0) = 0 then Inr ''''
      else
        (let resourceURI =
               (if \<not> HasPrefix resourceURI0 ''/'' then ''/'' @ resourceURI0 else resourceURI0);
             resourceName =
               (if \<not> HasPrefix resourceName0 ''/'' then ''/'' @ resourceName0 else resourceName0);
             rgResourceName = ''/resourceGroups'' @ resourceName;
             rgIndex = Index (ToLower resourceURI) (ToLower rgResourceName)
         in if rgIndex > - 1 then
              (let removedSameRgName = Split (ToLower resourceURI) (ToLower resourceName)
               in and_then (at_index removedSameRgName (int (length removedSameRgName) - 1))
                    (\<lambda>lastPiece. at_index (Split lastPiece ''/'') 1))
            else
              (let index = Index (ToLower resourceURI) (ToLower resourceName)
               in if index > - 1 then
                    and_then (slice_from resourceURI (index + int (length resourceName)))
                      (\<lambda>rest. let resource = Split rest ''/''
                              in if length resource > 1 then at_index resource 1 else Inr '''')
                  else Inr '''')))"

definition GetResourceName :: "string \<Rightarrow> panic + string" where
  "GetResourceName resourceURI =
     (if length (TrimSpace resourceURI) = 0 then Inr ''''
      else (let position = LastIndex resourceURI ''/''
            in slice_from resourceURI (position + 1)))"

text \<open>
  The composed getters all have one shape: the empty string for a blank identifier,
  otherwise the value after a fixed marker.
\<close>

definition GetSubscription :: "string \<Rightarrow> panic + string" where
  "GetSubscription resourceURI =
     (if length (TrimSpace resourceURI) = 0 then Inr ''''
      else and_then (GetResourceValue resourceURI ''/subscriptions'')
             (\<lambda>subscriptionID. if subscriptionID = '''' then Inr '''' else Inr subscriptionID))"

definition GetResourceGroup :: "string \<Rightarrow> panic + string" where
  "GetResourceGroup resourceURI =
     (if length (TrimSpace resourceURI) = 0 then Inr ''''
      else and_then (GetResourceValue resourceURI ''/resourceGroups'')
             (\<lambda>resourceGroupName.
                if resourceGroupName = '''' then Inr '''' else Inr resourceGroupName))"

definition GetANFAccount :: "string \<Rightarrow> panic + string" where
  "GetANFAccount resourceURI =
     (if length (TrimSpace resourceURI) = 0 then Inr ''''
      else and_then (GetResourceValue resourceURI ''/netAppAccounts'')
             (\<lambda>accountName. if accountName = '''' then Inr '''' else Inr accountName))"

definition GetANFCapacityPool :: "string \<Rightarrow> panic + string" where
  "GetANFCapacityPool resourceURI =
     (if length (TrimSpace resourceURI) = 0 then Inr ''''
      else and_then (GetResourceValue resourceURI ''/capacityPools'')
             (\<lambda>accountName. if accountName = '''' then Inr '''' else Inr accountName))"

definition GetANFVolume :: "string \<Rightarrow> panic + string" where
  "GetANFVolume resourceURI =
     (if length (TrimSpace resourceURI) = 0 then Inr ''''
      else and_then (GetResourceValue resourceURI ''/volumes'')
             (\<lambda>volumeName. if volumeName = '''' then Inr '''' else Inr volumeName))"

definition GetANFSnapshot :: "string \<Rightarrow> panic + string" where
  "GetANFSnapshot resourceURI =
     (if length (TrimSpace resourceURI) = 0 then Inr ''''
      else and_then (GetResourceValue resourceURI ''/snapshots'')
             (\<lambda>snapshotName. if snapshotName = '''' then Inr '''' else Inr snapshotName))"

definition GetANFSnapshotPolicy :: "string \<Rightarrow> panic + string" where
  "GetANFSnapshotPolicy resourceURI =
     (if length (TrimSpace resourceURI) = 0 then Inr ''''
      else and_then (GetResourceValue resourceURI ''/snapshotPolicies'')
             (\<lambda>snapshotPolicyName.
                if snapshotPolicyName = '''' then Inr '''' else Inr snapshotPolicyName))"

text \<open>The classifiers (uri.go, lines 181 to 250). None of them indexes or slices.\<close>

definition IsANFResource :: "string \<Rightarrow> bool" where
  "IsANFResource resourceURI =
     (if length (TrimSpace resourceURI) = 0 then False
      else Index resourceURI netAppResourceProviderName > - 1)"

definition IsANFSnapshot :: "string \<Rightarrow> bool" where
  "IsANFSnapshot resourceURI =
     (if length (TrimSpace resourceURI) = 0 \<or> \<not> IsANFResource resourceURI then False
      else LastIndex resourceURI ''/snapshots/'' > - 1)"

definition IsANFVolume :: "string \<Rightarrow> bool" where
  "IsANFVolume resourceURI =
     (if length (TrimSpace resourceURI) = 0 \<or> \<not> IsANFResource resourceURI then False
      else \<not> IsANFSnapshot resourceURI \<and> LastIndex resourceURI ''/volumes/'' > - 1)"

definition IsANFCapacityPool :: "string \<Rightarrow> bool" where
  "IsANFCapacityPool resourceURI =
     (if length (TrimSpace resourceURI) = 0 \<or> \<not> IsANFResource resourceURI then False
      else \<not> IsANFSnapshot resourceURI \<and> \<not> IsANFVolume resourceURI \<and>
           LastIndex resourceURI ''/capacityPools/'' > - 1)"

definition IsANFSnapshotPolicy :: "string \<Rightarrow> bool" where
  "IsANFSnapshotPolicy resourceURI =
     (if length (TrimSpace resourceURI) = 0 \<or> \<not> IsANFResource resourceURI then False
      else \<not> IsANFSnapshot resourceURI \<and> \<not> IsANFVolume resourceURI \<and>
           \<not> IsANFCapacityPool resourceURI \<and>
           LastIndex resourceURI ''/snapshotPolicies/'' > - 1)"

definition IsANFAccount :: "string \<Rightarrow> bool" where
  "IsANFAccount resourceURI =
     (if length (TrimSpace resourceURI) = 0 \<or> \<not> IsANFResource resourceURI then False
      else \<not> IsANFSnapshot resourceURI \<and> \<not> IsANFVolume resourceURI \<and>
           \<not> IsANFCapacityPool resourceURI \<and> \<not> IsANFSnapshotPolicy resourceURI \<and>
           LastIndex resourceURI ''/snapshotPolicies/'' = - 1 \<and>
           LastIndex resourceURI ''/backupPolicies/'' = - 1 \<and>
           LastIndex resourceURI ''/netAppAccounts/'' > - 1)"

section \<open>Package utils\<close>

text \<open>\<open>Contains\<close> and \<open>FindInSlice\<close> scan a slice of strings from the left.\<close>

fun Contains :: "string list \<Rightarrow> string \<Rightarrow> bool" where
  "Contains [] element = False"
| "Contains (e # array) element = (if e = element then True else Contains array element)"

fun FindInSlice_from :: "int \<Rightarrow> string list \<Rightarrow> string \<Rightarrow> int \<times> bool" where
  "FindInSlice_from i [] val = (- 1, False)"
| "FindInSlice_from i (item # items) val =
     (if item = val then (i, True) else FindInSlice_from (i + 1) items val)"

definition FindInSlice :: "string list \<Rightarrow> string \<Rightarrow> int \<times> bool" where
  "FindInSlice items val = FindInSlice_from 0 items val"

text \<open>
  The size conversions. \<open>GetBytesInTiB\<close> divides in 64 bits and narrows the quotient
  to 32 bits; \<open>GetTiBInBytes\<close> multiplies in 32 bits, the type of its argument, and
  widens the product to 64 bits.
\<close>

definition GetBytesInTiB :: "64 word \<Rightarrow> 32 word" where
  "GetBytesInTiB sz = ucast (sz div 1024 div 1024 div 1024 div 1024)"

definition GetTiBInBytes :: "32 word \<Rightarrow> 64 word" where
  "GetTiBInBytes sz = ucast (sz * 1024 * 1024 * 1024 * 1024)"

section \<open>Formatting with package fmt\<close>

text \<open>
  The verb \<open>%v\<close> prints an \<open>int\<close> in decimal, a slice of strings between brackets
  with single spaces, and an error by its message, \<open><nil>\<close> for the nil error.
\<close>

fun digits :: "nat \<Rightarrow> string" where
  "digits n =
     (if n < 10 then [char_of (of_char CHR ''0'' + n)]
      else digits (n div 10) @ [char_of (of_char CHR ''0'' + n mod 10)])"

declare digits.simps [simp del]

definition fmt_int :: "int \<Rightarrow> string" where
  "fmt_int i = (if i < 0 then ''-'' @ digits (nat (- i)) else digits (nat i))"

fun join_spaces :: "string list \<Rightarrow> string" where
  "join_spaces [] = ''''"
| "join_spaces [x] = x"
| "join_spaces (x # y # ys) = x @ '' '' @ join_spaces (y # ys)"

definition fmt_strings :: "string list \<Rightarrow> string" where
  "fmt_strings xs = ''['' @ join_spaces xs @ '']''"

fun message :: "go_error \<Rightarrow> string" where
  "message (Errorf m) = m"

definition fmt_error :: "go_error option \<Rightarrow> string" where
  "fmt_error err = (case err of None \<Rightarrow> ''<nil>'' | Some e \<Rightarrow> message e)"

section \<open>Package sdkutils: the resource gateway\<close>

definition nfsv3 :: string where "nfsv3 = ''NFSv3''"
definition nfsv41 :: string where "nfsv41 = ''NFSv4.1''"
definition cifs :: string where "cifs = ''CIFS''"

definition validProtocols :: "string list" where
  "validProtocols = [nfsv3, nfsv41, cifs]"

text \<open>
  Modelled from the spec: the type \<open>armnetapp.ServiceLevel\<close> of the Azure SDK, a string
  type, and its constants \<open>ServiceLevelUltra\<close>, \<open>ServiceLevelPremium\<close> and
  \<open>ServiceLevelStandard\<close>, which are declared outside src/. The spec names the tiers
  Ultra, Premium and Standard.
\<close>

type_synonym ServiceLevel = string

definition ServiceLevelUltra :: ServiceLevel where "ServiceLevelUltra = ''Ultra''"
definition ServiceLevelPremium :: ServiceLevel where "ServiceLevelPremium = ''Premium''"
definition ServiceLevelStandard :: ServiceLevel where "ServiceLevelStandard = ''Standard''"

text \<open>
  Modelled from the spec: \<open>armnetapp.PossibleServiceLevelValues\<close>, a function of the
  Azure SDK whose body is not under src/. The spec has the error of the validation list
  the three valid tiers, Ultra, Premium and Standard.
\<close>

definition PossibleServiceLevelValues :: "ServiceLevel list" where
  "PossibleServiceLevelValues = [ServiceLevelUltra, ServiceLevelPremium, ServiceLevelStandard]"

text \<open>
  \<open>validateANFServiceLevel\<close> (sdkutils.go, lines 38 to 53) returns Go's pair of the
  validated level and the error.
\<close>

definition validateANFServiceLevel :: "string \<Rightarrow> ServiceLevel \<times> go_error option" where
  "validateANFServiceLevel serviceLevel =
     (let s = ToLower serviceLevel in
      if s = ''ultra'' then (ServiceLevelUltra, None)
      else if s = ''premium'' then (ServiceLevelPremium, None)
      else if s = ''standard'' then (ServiceLevelStandard, None)
      else ('''', Some (Errorf (''invalid service level, supported service levels are: '' @
                                fmt_strings PossibleServiceLevelValues))))"

text \<open>
  The remote authority. An operation of the gateway builds a client, begins the
  mutation and waits for its completion; what each of the three steps answers is given
  by a record: the error of the client factory, the error of the begin call for the
  payload sent, and Go's pair of response and error of \<open>PollUntilDone\<close>. Arguments that
  the source only hands on to the SDK (context, location, names, tags) are part of the
  payload \<open>'q\<close>.
\<close>

record ('q, 'r) remote =
  getClient :: "go_error option"
  beginOp :: "'q \<Rightarrow> go_error option"
  pollUntilDone :: "'r \<times> go_error option"

text \<open>A synchronous call of the SDK: Go's pair of response and error at once.\<close>

record ('q, 'r) remote_sync =
  getClientSync :: "go_error option"
  callSync :: "'q \<Rightarrow> 'r \<times> go_error option"

text \<open>
  The operations return Go's pair of a pointer to the resource (\<open>None\<close> for nil) and the
  error.
\<close>

definition CreateANFAccount :: "('q, 'r) remote \<Rightarrow> 'q \<Rightarrow> 'r option \<times> go_error option" where
  "CreateANFAccount env account =
     (case getClient env of
        Some err \<Rightarrow> (None, Some err)
      | None \<Rightarrow>
         (case beginOp env account of
            Some err \<Rightarrow> (None, Some (Errorf (''cannot create account: '' @ message err)))
          | None \<Rightarrow>
             (case pollUntilDone env of
                (resp, Some err) \<Rightarrow>
                  (None, Some (Errorf (''cannot get the account create or update future response: '' @
                                       message err)))
              | (resp, None) \<Rightarrow> (Some resp, None))))"

definition CreateANFCapacityPool ::
  "(ServiceLevel \<times> 'q, 'r) remote \<Rightarrow> string \<Rightarrow> 'q \<Rightarrow> 'r option \<times> go_error option" where
  "CreateANFCapacityPool env serviceLevel pool =
     (case getClient env of
        Some err \<Rightarrow> (None, Some err)
      | None \<Rightarrow>
         (case validateANFServiceLevel serviceLevel of
            (svcLevel, Some err) \<Rightarrow> (None, Some err)
          | (svcLevel, None) \<Rightarrow>
             (case beginOp env (svcLevel, pool) of
                Some err \<Rightarrow> (None, Some (Errorf (''cannot create pool: '' @ message err)))
              | None \<Rightarrow>
                 (case pollUntilDone env of
                    (resp, Some err) \<Rightarrow>
                      (None, Some (Errorf (''cannot get the pool create or update future response: '' @
                                           message err)))
                  | (resp, None) \<Rightarrow> (Some resp, None)))))"

text \<open>
  The part of the volume that \<open>CreateANFVolume\<close> computes itself: the export policy
  rule and the properties derived from the protocol types. (The slice of pointers
  \<open>ProtocolTypes\<close>, the data protection object, location and tags are handed on as
  they are and belong to the payload \<open>'q\<close>.)
\<close>

record ExportPolicyRule =
  AllowedClients :: string
  Cifs :: bool
  Nfsv3 :: bool
  Nfsv41 :: bool
  RuleIndex :: int
  UnixReadOnly :: bool
  UnixReadWrite :: bool

record VolumeProperties =
  SnapshotID :: "string option"
  ExportPolicy :: "ExportPolicyRule list option"
  ServiceLevelOf :: ServiceLevel
  SubnetID :: string
  UsageThreshold :: int
  CreationToken :: string

text \<open>
  \<open>CreateANFVolume\<close> (sdkutils.go, lines 245 to 326), in two parts. The second part,
  \<open>CreateANFVolume_submit\<close>, is what the function does from line 259 on, once the
  protocol types have passed the three checks: it validates the service level, builds the
  client and the volume, begins the creation and waits. \<open>primary\<close> is
  \<open>protocolTypes[0]\<close>, which is in range there.
\<close>

definition CreateANFVolume_submit ::
  "(VolumeProperties \<times> 'q, 'r) remote \<Rightarrow> string \<Rightarrow> string \<Rightarrow> string \<Rightarrow> string \<Rightarrow>
   string list \<Rightarrow> string \<Rightarrow> int \<Rightarrow> bool \<Rightarrow> bool \<Rightarrow> 'q \<Rightarrow> 'r option \<times> go_error option" where
  "CreateANFVolume_submit env volumeName serviceLevel subnetID snapshotID protocolTypes primary
       volumeUsageQuota unixReadOnly unixReadWrite rest =
     (case validateANFServiceLevel serviceLevel of
        (svcLevel, Some err) \<Rightarrow> (None, Some err)
      | (svcLevel, None) \<Rightarrow>
         (case getClient env of
            Some err \<Rightarrow> (None, Some err)
          | None \<Rightarrow>
             (let exportPolicy =
                    (if \<not> snd (FindInSlice protocolTypes cifs) then
                       [\<lparr>AllowedClients = ''0.0.0.0/0'',
                         Cifs = (primary = cifs),
                         Nfsv3 = (primary = nfsv3),
                         Nfsv41 = (primary = nfsv41),
                         RuleIndex = 1,
                         UnixReadOnly = unixReadOnly,
                         UnixReadWrite = unixReadWrite\<rparr>]
                     else []);
                  volumeProperties =
                    \<lparr>SnapshotID = (if snapshotID \<noteq> [] then Some snapshotID else None),
                     ExportPolicy = (if primary \<noteq> cifs then Some exportPolicy else None),
                     ServiceLevelOf = svcLevel,
                     SubnetID = subnetID,
                     UsageThreshold = volumeUsageQuota,
                     CreationToken = volumeName\<rparr>
              in case beginOp env (volumeProperties, rest) of
                   Some err \<Rightarrow> (None, Some (Errorf (''cannot create volume: '' @ message err)))
                 | None \<Rightarrow>
                    (case pollUntilDone env of
                       (resp, Some err) \<Rightarrow>
                         (None,
                          Some (Errorf
                            (''cannot get the volume create or update future response: '' @
                             message err)))
                     | (resp, None) \<Rightarrow> (Some resp, None)))))"

text \<open>
  The first part: the three protocol checks of lines 246 to 257. The third reads
  \<open>protocolTypes[0]\<close> with no check of the length, which is a panic on the empty slice.
\<close>

definition CreateANFVolume ::
  "(VolumeProperties \<times> 'q, 'r) remote \<Rightarrow> string \<Rightarrow> string \<Rightarrow> string \<Rightarrow> string \<Rightarrow>
   string list \<Rightarrow> int \<Rightarrow> bool \<Rightarrow> bool \<Rightarrow> 'q \<Rightarrow> panic + ('r option \<times> go_error option)" where
  "CreateANFVolume env volumeName serviceLevel subnetID snapshotID protocolTypes
       volumeUsageQuota unixReadOnly unixReadWrite rest =
     (if length protocolTypes > 2 then
        Inr (None, Some (Errorf ''maximum of two protocol types are supported''))
      else if length protocolTypes > 1 \<and> Contains protocolTypes ''NFSv4.1'' then
        Inr (None, Some (Errorf ''only cifs/nfsv3 protocol types are supported as dual protocol''))
      else
        and_then (at_index protocolTypes 0) (\<lambda>primary.
          if \<not> snd (FindInSlice validProtocols primary) then
            Inr (None, Some (Errorf (''invalid protocol type, valid protocol types are: '' @
                                     fmt_strings validProtocols)))
          else
            Inr (CreateANFVolume_submit env volumeName serviceLevel subnetID snapshotID
                   protocolTypes primary volumeUsageQuota unixReadOnly unixReadWrite rest)))"

definition UpdateANFVolume :: "('q, 'r) remote \<Rightarrow> 'q \<Rightarrow> 'r option \<times> go_error option" where
  "UpdateANFVolume env volumePatch =
     (case getClient env of
        Some err \<Rightarrow> (None, Some err)
      | None \<Rightarrow>
         (case beginOp env volumePatch of
            Some err \<Rightarrow> (None, Some (Errorf (''cannot update volume: '' @ message err)))
          | None \<Rightarrow>
             (case pollUntilDone env of
                (resp, Some err) \<Rightarrow> (None, Some err)
              | (resp, None) \<Rightarrow> (Some resp, None))))"

definition CreateANFSnapshot :: "('q, 'r) remote \<Rightarrow> 'q \<Rightarrow> 'r option \<times> go_error option" where
  "CreateANFSnapshot env snapshot =
     (case getClient env of
        Some err \<Rightarrow> (None, Some err)
      | None \<Rightarrow>
         (case beginOp env snapshot of
            Some err \<Rightarrow> (None, Some (Errorf (''cannot create snapshot: '' @ message err)))
          | None \<Rightarrow>
             (case pollUntilDone env of
                (resp, Some err) \<Rightarrow>
                  (None, Some (Errorf (''cannot get the snapshot create or update future response: '' @
                                       message err)))
              | (resp, None) \<Rightarrow> (Some resp, None))))"

text \<open>\<open>CreateANFSnapshotPolicy\<close> calls the synchronous \<open>Create\<close>; there is no wait.\<close>

definition CreateANFSnapshotPolicy ::
  "('q, 'r) remote_sync \<Rightarrow> 'q \<Rightarrow> 'r option \<times> go_error option" where
  "CreateANFSnapshotPolicy env policy =
     (case getClientSync env of
        Some err \<Rightarrow> (None, Some err)
      | None \<Rightarrow>
         (case callSync env policy of
            (snapshotPolicy, Some err) \<Rightarrow>
              (None, Some (Errorf (''cannot create snapshot policy: '' @ message err)))
          | (snapshotPolicy, None) \<Rightarrow> (Some snapshotPolicy, None)))"

text \<open>
  \<open>UpdateANFSnapshotPolicy\<close> (sdkutils.go, lines 499 to 520) assigns the error of
  \<open>PollUntilDone\<close> to \<open>err\<close> and returns \<open>&resp.SnapshotPolicy, nil\<close> without reading it.
\<close>

definition UpdateANFSnapshotPolicy ::
  "('q, 'r) remote \<Rightarrow> 'q \<Rightarrow> 'r option \<times> go_error option" where
  "UpdateANFSnapshotPolicy env snapshotPolicyPatch =
     (case getClient env of
        Some err \<Rightarrow> (None, Some err)
      | None \<Rightarrow>
         (case beginOp env snapshotPolicyPatch of
            Some err \<Rightarrow> (None, Some (Errorf (''cannot update snapshot policy: '' @ message err)))
          | None \<Rightarrow>
             (case pollUntilDone env of
                (resp, err) \<Rightarrow> (Some resp, None))))"

section \<open>Package sdkutils: the convergence pollers\<close>

text \<open>
  The requests that an iteration of a poller can send, with the names parsed from the
  resource identifier, and what a run of a poller does that can be observed from outside:
  it sleeps and it sends requests.
\<close>

datatype request =
    SnapshotsGet string string string string string
  | VolumesGet string string string string
  | VolumesReplicationStatus string string string string
  | PoolsGet string string string
  | SnapshotPoliciesGet string string string
  | AccountsGet string string

datatype event = Sleep int | Call request

text \<open>
  The chain of \<open>if\<close> and \<open>else if\<close> that both pollers contain word for word
  (sdkutils.go, lines 635 to 693 and 710 to 768): the classifiers are tried in the order
  snapshot, volume, capacity pool, snapshot policy, account; the arguments of the request
  are parsed from left to right, and a panic of a getter ends the run before the request
  is sent. \<open>None\<close> is the case where no branch is taken. The client that the branch builds
  first (its error is discarded) is part of the remote side.
\<close>

definition dispatch :: "string \<Rightarrow> bool \<Rightarrow> panic + request option" where
  "dispatch resourceID checkForReplication =
     (if IsANFSnapshot resourceID then
        and_then (GetResourceGroup resourceID) (\<lambda>rg.
        and_then (GetANFAccount resourceID) (\<lambda>account.
        and_then (GetANFCapacityPool resourceID) (\<lambda>pool.
        and_then (GetANFVolume resourceID) (\<lambda>volume.
        and_then (GetANFSnapshot resourceID) (\<lambda>snapshot.
          Inr (Some (SnapshotsGet rg account pool volume snapshot)))))))
      else if IsANFVolume resourceID then
        (if \<not> checkForReplication then
           and_then (GetResourceGroup resourceID) (\<lambda>rg.
           and_then (GetANFAccount resourceID) (\<lambda>account.
           and_then (GetANFCapacityPool resourceID) (\<lambda>pool.
           and_then (GetANFVolume resourceID) (\<lambda>volume.
             Inr (Some (VolumesGet rg account pool volume))))))
         else
           and_then (GetResourceGroup resourceID) (\<lambda>rg.
           and_then (GetANFAccount resourceID) (\<lambda>account.
           and_then (GetANFCapacityPool resourceID) (\<lambda>pool.
           and_then (GetANFVolume resourceID) (\<lambda>volume.
             Inr (Some (VolumesReplicationStatus rg account pool volume)))))))
      else if IsANFCapacityPool resourceID then
        and_then (GetResourceGroup resourceID) (\<lambda>rg.
        and_then (GetANFAccount resourceID) (\<lambda>account.
        and_then (GetANFCapacityPool resourceID) (\<lambda>pool.
          Inr (Some (PoolsGet rg account pool)))))
      else if IsANFSnapshotPolicy resourceID then
        and_then (GetResourceGroup resourceID) (\<lambda>rg.
        and_then (GetANFAccount resourceID) (\<lambda>account.
        and_then (GetANFSnapshotPolicy resourceID) (\<lambda>policy.
          Inr (Some (SnapshotPoliciesGet rg account policy)))))
      else if IsANFAccount resourceID then
        and_then (GetResourceGroup resourceID) (\<lambda>rg.
        and_then (GetANFAccount resourceID) (\<lambda>account.
          Inr (Some (AccountsGet rg account))))
      else Inr None)"

text \<open>
  The loops. \<open>remote i rq\<close> is the error with which the remote side answers the request
  \<open>rq\<close> in iteration \<open>i\<close> (\<open>None\<close> for nil). The state of the loop is the counter \<open>i\<close>,
  the variable \<open>err\<close> and the events so far; the result is the value returned, or the
  panic, and the events.
\<close>

function WaitForNoANFResource_loop ::
  "(int \<Rightarrow> request \<Rightarrow> go_error option) \<Rightarrow> string \<Rightarrow> int \<Rightarrow> int \<Rightarrow> bool \<Rightarrow>
   int \<Rightarrow> go_error option \<Rightarrow> event list \<Rightarrow> (panic + go_error option) \<times> event list" where
  "WaitForNoANFResource_loop remote resourceID intervalInSec retries checkForReplication i err evs =
     (if i < retries then
        (case dispatch resourceID checkForReplication of
           Inl p \<Rightarrow> (Inl p, evs @ [Sleep intervalInSec])
         | Inr None \<Rightarrow>
             (if err \<noteq> None then (Inr None, evs @ [Sleep intervalInSec])
              else WaitForNoANFResource_loop remote resourceID intervalInSec retries
                     checkForReplication (i + 1) err (evs @ [Sleep intervalInSec]))
         | Inr (Some rq) \<Rightarrow>
             (if remote i rq \<noteq> None then (Inr None, evs @ [Sleep intervalInSec, Call rq])
              else WaitForNoANFResource_loop remote resourceID intervalInSec retries
                     checkForReplication (i + 1) (remote i rq)
                     (evs @ [Sleep intervalInSec, Call rq])))
      else (Inr (Some (Errorf (''exceeded number of retries: '' @ fmt_int retries))), evs))"
  by pat_completeness auto
termination
  by (relation "measure (\<lambda>(remote, resourceID, intervalInSec, retries, checkForReplication,
                            i, err, evs). nat (retries - i))") auto

declare WaitForNoANFResource_loop.simps [simp del]

definition WaitForNoANFResource ::
  "(int \<Rightarrow> request \<Rightarrow> go_error option) \<Rightarrow> string \<Rightarrow> int \<Rightarrow> int \<Rightarrow> bool \<Rightarrow>
   (panic + go_error option) \<times> event list" where
  "WaitForNoANFResource remote resourceID intervalInSec retries checkForReplication =
     WaitForNoANFResource_loop remote resourceID intervalInSec retries checkForReplication
       0 None []"

function WaitForANFResource_loop ::
  "(int \<Rightarrow> request \<Rightarrow> go_error option) \<Rightarrow> string \<Rightarrow> int \<Rightarrow> int \<Rightarrow> bool \<Rightarrow>
   int \<Rightarrow> go_error option \<Rightarrow> event list \<Rightarrow> (panic + go_error option) \<times> event list" where
  "WaitForANFResource_loop remote resourceID intervalInSec retries checkForReplication i err evs =
     (if i < retries then
        (case dispatch resourceID checkForReplication of
           Inl p \<Rightarrow> (Inl p, evs @ [Sleep intervalInSec])
         | Inr None \<Rightarrow>
             (if err = None then (Inr None, evs @ [Sleep intervalInSec])
              else WaitForANFResource_loop remote resourceID intervalInSec retries
                     checkForReplication (i + 1) err (evs @ [Sleep intervalInSec]))
         | Inr (Some rq) \<Rightarrow>
             (if remote i rq = None then (Inr None, evs @ [Sleep intervalInSec, Call rq])
              else WaitForANFResource_loop remote resourceID intervalInSec retries
                     checkForReplication (i + 1) (remote i rq)
                     (evs @ [Sleep intervalInSec, Call rq])))
      else (Inr (Some (Errorf (''resource still not found after number of retries: '' @
                               fmt_int retries @ '', error: '' @ fmt_error err))), evs))"
  by pat_completeness auto
termination
  by (relation "measure (\<lambda>(remote, resourceID, intervalInSec, retries, checkForReplication,
                            i, err, evs). nat (retries - i))") auto

declare WaitForANFResource_loop.simps [simp del]

definition WaitForANFResource ::
  "(int \<Rightarrow> request \<Rightarrow> go_error option) \<Rightarrow> string \<Rightarrow> int \<Rightarrow> int \<Rightarrow> bool \<Rightarrow>
   (panic + go_error option) \<times> event list" where
  "WaitForANFResource remote resourceID intervalInSec retries checkForReplication =
     WaitForANFResource_loop remote resourceID intervalInSec retries checkForReplication
       0 None []"

text \<open>
  Two simulated remote sides for the pollers: one that answers every request with nil,
  one that answers every request with an error.
\<close>

definition always_found :: "int \<Rightarrow> request \<Rightarrow> go_error option" where
  "always_found i rq = None"

definition always_gone :: "int \<Rightarrow> request \<Rightarrow> go_error option" where
  "always_gone i rq = Some (Errorf ''not found'')"

text \<open>
  Two simulated remote sides for the gateway: one on which every step succeeds and the
  wait returns the volume \<open>vol1\<close>, and one on which the mutation is accepted and the wait
  for its completion fails, its response being the zero value.
\<close>

definition cooperative :: "(VolumeProperties \<times> unit, string) remote" where
  "cooperative = \<lparr>getClient = None, beginOp = (\<lambda>q. None), pollUntilDone = (''vol1'', None)\<rparr>"

definition completion_fails :: "(unit, string) remote" where
  "completion_fails =
     \<lparr>getClient = None, beginOp = (\<lambda>q. None),
      pollUntilDone = ('''', Some (Errorf ''operation failed''))\<rparr>"

section \<open>The size conversions\<close>

lemma tib_factor_zero: "(1099511627776 :: 32 word) = 0"
  by (simp add: word_uint_eq_iff)

lemma tib_product_zero: "(sz :: 32 word) * 1024 * 1024 * 1024 * 1024 = 0"
proof -
  have "sz * 1024 * 1024 * 1024 * 1024 = sz * 1099511627776" by simp
  also have "\<dots> = sz * 0" by (simp only: tib_factor_zero)
  finally show ?thesis by simp
qed

text \<open>
  Claim C9. \<open>GetTiBInBytes\<close> returns 0 for every 32-bit size: the product with
  \<open>1024 * 1024 * 1024 * 1024\<close> is taken in 32 bits, where it is 0, and only then widened
  to 64 bits. So converting to bytes and back gives 0, which is not the size one started
  from unless that was 0.
\<close>

theorem GetTiBInBytes_zero:
  "GetTiBInBytes s = 0 \<and> GetBytesInTiB (GetTiBInBytes s) = 0 \<and>
   (s \<noteq> 0 \<longrightarrow> GetBytesInTiB (GetTiBInBytes s) \<noteq> s)"
proof -
  have z: "GetTiBInBytes s = 0"
    by (simp only: GetTiBInBytes_def tib_product_zero) simp
  have r: "GetBytesInTiB (GetTiBInBytes s) = 0"
    by (simp only: z GetBytesInTiB_def) simp
  from z r show ?thesis by auto
qed

theorem GetTiBInBytes_zero_witness:
  "(1 :: 32 word) \<noteq> 0 \<and> GetTiBInBytes 1 = 0 \<and> GetBytesInTiB (GetTiBInBytes 1) \<noteq> 1"
proof -
  have "(1 :: 32 word) \<noteq> 0" by simp
  with GetTiBInBytes_zero [of 1] show ?thesis by blast
qed

section \<open>The classifiers\<close>

lemma IsANFVolume_excl: "IsANFVolume s \<Longrightarrow> \<not> IsANFSnapshot s"
  by (simp add: IsANFVolume_def split: if_splits)

lemma IsANFCapacityPool_excl: "IsANFCapacityPool s \<Longrightarrow> \<not> IsANFSnapshot s \<and> \<not> IsANFVolume s"
  by (simp add: IsANFCapacityPool_def split: if_splits)

lemma IsANFSnapshotPolicy_excl:
  "IsANFSnapshotPolicy s \<Longrightarrow> \<not> IsANFSnapshot s \<and> \<not> IsANFVolume s \<and> \<not> IsANFCapacityPool s"
  by (simp add: IsANFSnapshotPolicy_def split: if_splits)

lemma IsANFAccount_excl:
  "IsANFAccount s \<Longrightarrow>
     \<not> IsANFSnapshot s \<and> \<not> IsANFVolume s \<and> \<not> IsANFCapacityPool s \<and> \<not> IsANFSnapshotPolicy s"
  by (simp add: IsANFAccount_def split: if_splits)

text \<open>
  Claim C6. For every string, at most one of the five classifiers \<open>IsANFSnapshot\<close>,
  \<open>IsANFVolume\<close>, \<open>IsANFCapacityPool\<close>, \<open>IsANFSnapshotPolicy\<close> and \<open>IsANFAccount\<close> is true:
  among their five answers, the number of those that are true is at most 1. (The proof
  uses only that each classifier negates the ones before it, not how blank strings are
  recognised.)
\<close>

theorem classifiers_mutually_exclusive:
  "length (filter id [IsANFSnapshot s, IsANFVolume s, IsANFCapacityPool s,
                      IsANFSnapshotPolicy s, IsANFAccount s]) \<le> 1"
  using IsANFVolume_excl [of s] IsANFCapacityPool_excl [of s]
    IsANFSnapshotPolicy_excl [of s] IsANFAccount_excl [of s]
  by auto

section \<open>The identifier parser\<close>

text \<open>
  Where the parser does return a string: on a blank identifier or marker every function
  returns the empty string; \<open>GetResourceName\<close> returns a string on every input; and the
  regular branch of \<open>GetResourceValue\<close>, the one taken when the marker does not follow
  \<open>/resourceGroups\<close> in the identifier, returns a string on every input in ASCII, since
  its slice is within bounds and its index is guarded.
\<close>

lemma length_ToLower: "length (ToLower s) = length s"
  by (simp add: ToLower_def)

lemma GetResourceValue_blank:
  "length (TrimSpace uri) = 0 \<or> length (TrimSpace marker) = 0 \<Longrightarrow>
     GetResourceValue uri marker = Inr ''''"
  by (auto simp: GetResourceValue_def)

lemma getters_blank:
  assumes "length (TrimSpace uri) = 0"
  shows "GetResourceName uri = Inr ''''" "GetSubscription uri = Inr ''''"
    "GetResourceGroup uri = Inr ''''" "GetANFAccount uri = Inr ''''"
    "GetANFCapacityPool uri = Inr ''''" "GetANFVolume uri = Inr ''''"
    "GetANFSnapshot uri = Inr ''''" "GetANFSnapshotPolicy uri = Inr ''''"
  using assms
  by (simp_all add: GetResourceName_def GetSubscription_def GetResourceGroup_def
      GetANFAccount_def GetANFCapacityPool_def GetANFVolume_def GetANFSnapshot_def
      GetANFSnapshotPolicy_def)

lemma LastIndex_range:
  "sub \<noteq> [] \<Longrightarrow> - 1 \<le> LastIndex s sub \<and> LastIndex s sub + 1 \<le> int (length s)"
  by (induction s) (auto simp: Let_def)

lemma GetResourceName_total: "\<exists>v. GetResourceName uri = Inr v"
  using LastIndex_range [of "''/''" uri]
  by (simp add: GetResourceName_def slice_from_def Let_def)

lemma GetResourceValue_regular_total:
  assumes ascii: "isASCII uri" "isASCII marker"
    and plain: "Index (ToLower (if \<not> HasPrefix uri ''/'' then ''/'' @ uri else uri))
             (ToLower (''/resourceGroups'' @
                (if \<not> HasPrefix marker ''/'' then ''/'' @ marker else marker))) = - 1"
  shows "\<exists>v. GetResourceValue uri marker = Inr v"
proof -
  define u where "u = (if \<not> HasPrefix uri ''/'' then ''/'' @ uri else uri)"
  define m where "m = (if \<not> HasPrefix marker ''/'' then ''/'' @ marker else marker)"
  have bound: "0 \<le> Index (ToLower u) (ToLower m) \<Longrightarrow>
      slice_from u (Index (ToLower u) (ToLower m) + int (length m)) =
        Inr (drop (nat (Index (ToLower u) (ToLower m) + int (length m))) u)"
    using Index_upper [of "ToLower u" "ToLower m"]
    by (simp add: slice_from_def length_ToLower)
  have guarded: "\<exists>v. (let resource = Split rest ''/''
                     in if length resource > 1 then at_index resource 1 else Inr '''') = Inr v"
    for rest
    by (simp add: Let_def at_index_def)
  show ?thesis
  proof (cases "0 \<le> Index (ToLower u) (ToLower m)")
    case True
    from guarded [of "drop (nat (Index (ToLower u) (ToLower m) + int (length m))) u"]
    obtain v where "(let resource =
          Split (drop (nat (Index (ToLower u) (ToLower m) + int (length m))) u) ''/''
        in if length resource > 1 then at_index resource 1 else Inr '''') = Inr v" ..
    with True bound plain show ?thesis
      unfolding GetResourceValue_def u_def [symmetric] m_def [symmetric]
      by (auto simp add: Let_def and_then_def u_def [symmetric] m_def [symmetric])
  next
    case False
    with plain show ?thesis
      unfolding GetResourceValue_def
      by (auto simp add: Let_def u_def [symmetric] m_def [symmetric])
  qed
qed

text \<open>
  Claim C1. The claim has the parsing functions return a string on every input, and
  names the identifier \<open>/resourceGroups/volumes\<close> with the marker \<open>/volumes\<close>. There the
  branch for a resource named like its resource group is taken, the piece after the last
  marker is empty, its split at \<open>/\<close> has one element, and the element at index 1 is read:
  \<open>GetResourceValue\<close> panics, and so does \<open>GetANFVolume\<close>, which calls it.
\<close>

theorem GetResourceValue_panics:
  "GetResourceValue ''/resourceGroups/volumes'' ''/volumes'' = Inl IndexOutOfRange \<and>
   GetANFVolume ''/resourceGroups/volumes'' = Inl IndexOutOfRange"
  by code_simp

text \<open>
  The name of the volume. In the regular branch the value is cut out of the identifier
  as it was given: for an identifier in ASCII, when the first occurrence of \<open>/volumes\<close>, compared without case, is
  the one in front of the name, the name is returned character for character.
\<close>

lemma in_set_dropWhile: "c \<in> set s \<Longrightarrow> \<not> P c \<Longrightarrow> c \<in> set (dropWhile P s)"
  by (induction s) auto

lemma TrimSpace_not_blank:
  assumes "c \<in> set s" and "\<not> isSpaceByte c"
  shows "length (TrimSpace s) \<noteq> 0"
proof -
  from assms have "c \<in> set (rev (dropWhile isSpaceByte s))"
    by (simp add: in_set_dropWhile)
  from this assms(2)
  have "c \<in> set (dropWhile isSpaceByte (rev (dropWhile isSpaceByte s)))"
    by (rule in_set_dropWhile)
  then have "dropWhile isSpaceByte (rev (dropWhile isSpaceByte s)) \<noteq> []"
    by (cases "dropWhile isSpaceByte (rev (dropWhile isSpaceByte s))") simp_all
  then show ?thesis by (simp add: TrimSpace_def)
qed

lemma slash_not_space: "\<not> isSpaceByte CHR ''/''"
  by (simp add: isSpaceByte_def)

lemma Index_slash_absent: "CHR ''/'' \<notin> set name \<Longrightarrow> Index name ''/'' = - 1"
  by (induction name) (auto simp: Let_def)

lemma Index_slash_first:
  "CHR ''/'' \<notin> set name \<Longrightarrow> Index (name @ CHR ''/'' # rest) ''/'' = int (length name)"
  by (induction name) (auto simp: Let_def)

lemma Split_slash_last: "CHR ''/'' \<notin> set name \<Longrightarrow> Split name ''/'' = [name]"
  by (subst Split.simps) (simp add: Index_slash_absent)

lemma Split_slash_first:
  assumes "CHR ''/'' \<notin> set name"
  shows "Split (name @ CHR ''/'' # rest) ''/'' = name # Split rest ''/''"
  using assms by (subst Split.simps) (simp add: Index_slash_first)

lemma second_piece:
  assumes "CHR ''/'' \<notin> set name" and "tail = [] \<or> hd tail = CHR ''/''"
  shows "\<exists>ps. Split (CHR ''/'' # name @ tail) ''/'' = [] # name # ps"
proof -
  have first: "Split (CHR ''/'' # name @ tail) ''/'' = [] # Split (name @ tail) ''/''"
    using Split_slash_first [of "[]" "name @ tail"] by simp
  from assms(2) show ?thesis
  proof
    assume "tail = []"
    with assms(1) first show ?thesis by (simp add: Split_slash_last)
  next
    assume hd: "hd tail = CHR ''/''"
    show ?thesis
    proof (cases tail)
      case Nil
      with assms(1) first show ?thesis by (simp add: Split_slash_last)
    next
      case (Cons t ts)
      with hd have "tail = CHR ''/'' # ts" by simp
      with assms(1) first show ?thesis by (simp add: Split_slash_first)
    qed
  qed
qed

lemma GetResourceValue_volumes_regular:
  assumes ascii: "isASCII uri"
    and uri: "uri = pre @ ''/volumes/'' @ name @ tail"
    and slash: "HasPrefix uri ''/''"
    and name: "CHR ''/'' \<notin> set name"
    and tail: "tail = [] \<or> hd tail = CHR ''/''"
    and plain: "Index (ToLower uri) ''/resourcegroups/volumes'' = - 1"
    and first: "Index (ToLower uri) ''/volumes'' = int (length pre)"
  shows "GetResourceValue uri ''/volumes'' = Inr name"
    and "GetANFVolume uri = Inr name"
proof -
  have nb: "length (TrimSpace uri) \<noteq> 0"
    by (rule TrimSpace_not_blank [of "CHR ''/''"]) (simp_all add: uri slash_not_space)
  have nbm: "length (TrimSpace ''/volumes'') \<noteq> 0"
    by (rule TrimSpace_not_blank [of "CHR ''/''"]) (simp_all add: slash_not_space)
  have low1: "ToLower ''/resourceGroups/volumes'' = ''/resourcegroups/volumes''"
    by code_simp
  have low2: "ToLower ''/volumes'' = ''/volumes''" by code_simp
  have sl: "slice_from uri (int (length pre) + int (length ''/volumes'')) =
              Inr (CHR ''/'' # name @ tail)"
  proof -
    have "nat (int (length pre) + int (length ''/volumes'')) = length pre + 8" by simp
    then show ?thesis by (simp add: slice_from_def uri)
  qed
  from second_piece [OF name tail] obtain ps
    where ps: "Split (CHR ''/'' # name @ tail) ''/'' = [] # name # ps" ..
  show v: "GetResourceValue uri ''/volumes'' = Inr name"
    unfolding GetResourceValue_def
    using nb nbm slash plain first sl
    by (simp add: Let_def low1 low2 and_then_def ps at_index_def)
  show "GetANFVolume uri = Inr name"
    using nb by (simp add: GetANFVolume_def v and_then_def)
qed

lemma GetANFVolume_regular_example:
  "GetANFVolume ''/subscriptions/sub1/resourceGroups/rg1/providers/Microsoft.NetApp/netAppAccounts/acc1/capacityPools/pool1/volumes/MyVol/snapshots/snap1''
   = Inr ''MyVol''"
  by code_simp

text \<open>
  The condition on the first occurrence is needed: the branch for colliding names looks
  at the resource group only. For a volume of an account that is itself named \<open>volumes\<close>
  the first occurrence of \<open>/volumes\<close> is the name of the account, and the segment after it
  is returned.
\<close>

lemma GetANFVolume_collision_example:
  "GetANFVolume ''/subscriptions/sub1/resourceGroups/rg1/providers/Microsoft.NetApp/netAppAccounts/volumes/capacityPools/pool1/volumes/vol1''
   = Inr ''capacityPools''"
  by code_simp

text \<open>
  Claim C3. The claim has \<open>GetResourceValue\<close> with the marker \<open>/volumes\<close>, and so
  \<open>GetANFVolume\<close>, return the name of the volume with its letter case also when the
  resource group is itself named \<open>volumes\<close>. In that branch the code splits the lower-cased
  identifier and returns a piece of it: for the volume \<open>MyVol\<close> in the resource group
  \<open>volumes\<close> it returns \<open>myvol\<close>.
\<close>

theorem GetANFVolume_lowercases_name:
  "GetResourceValue ''/subscriptions/sub1/resourceGroups/volumes/providers/Microsoft.NetApp/netAppAccounts/acc1/capacityPools/pool1/volumes/MyVol/snapshots/snap1'' ''/volumes''
     = Inr ''myvol'' \<and>
   GetANFVolume ''/subscriptions/sub1/resourceGroups/volumes/providers/Microsoft.NetApp/netAppAccounts/acc1/capacityPools/pool1/volumes/MyVol/snapshots/snap1''
     = Inr ''myvol''"
  by code_simp

section \<open>Validation in the gateway\<close>

lemma Contains_iff: "Contains array element \<longleftrightarrow> element \<in> set array"
  by (induction array) auto

lemma FindInSlice_from_found: "snd (FindInSlice_from i items val) \<longleftrightarrow> val \<in> set items"
  by (induction items arbitrary: i) auto

lemma FindInSlice_found: "snd (FindInSlice items val) \<longleftrightarrow> val \<in> set items"
  by (simp add: FindInSlice_def FindInSlice_from_found)

lemma invalid_protocol_message:
  "''invalid protocol type, valid protocol types are: '' @ fmt_strings validProtocols
   = ''invalid protocol type, valid protocol types are: [NFSv3 NFSv4.1 CIFS]''"
  by (simp add: fmt_strings_def validProtocols_def nfsv3_def nfsv41_def cifs_def)

lemma set_validProtocols: "set validProtocols = {''NFSv3'', ''NFSv4.1'', ''CIFS''}"
  by (simp add: validProtocols_def nfsv3_def nfsv41_def cifs_def)


text \<open>
  Claim C10. With an empty list of protocol types \<open>CreateANFVolume\<close> returns no
  validation error: the two checks of the length pass, and reading \<open>protocolTypes[0]\<close>
  is out of range, a panic, whatever the other arguments and the remote side are.
\<close>

theorem CreateANFVolume_empty_protocolTypes:
  "CreateANFVolume env volumeName serviceLevel subnetID snapshotID []
     volumeUsageQuota unixReadOnly unixReadWrite rest = Inl IndexOutOfRange"
  by (simp add: CreateANFVolume_def at_index_def and_then_def)



text \<open>
  Claim C4. \<open>CreateANFVolume\<close> checks the protocol types before anything else, so
  whatever the remote side would answer: a list of three or more is rejected with the
  error of the maximum of two; a list of two that contains \<open>NFSv4.1\<close> is rejected with
  the dual-protocol error, so \<open>NFSv4.1\<close> with \<open>CIFS\<close> is; a list that passes these two
  checks and whose first element is none of \<open>NFSv3\<close>, \<open>NFSv4.1\<close>, \<open>CIFS\<close> is rejected
  with the invalid-protocol error; and \<open>NFSv3\<close> with \<open>CIFS\<close> passes the three checks: the
  result is that of the rest of the function.
\<close>

theorem CreateANFVolume_protocol_validation:
  "(length protocolTypes \<ge> 3 \<longrightarrow>
      CreateANFVolume env volumeName serviceLevel subnetID snapshotID protocolTypes
        volumeUsageQuota unixReadOnly unixReadWrite rest =
      Inr (None, Some (Errorf ''maximum of two protocol types are supported''))) \<and>
   (length protocolTypes = 2 \<and> ''NFSv4.1'' \<in> set protocolTypes \<longrightarrow>
      CreateANFVolume env volumeName serviceLevel subnetID snapshotID protocolTypes
        volumeUsageQuota unixReadOnly unixReadWrite rest =
      Inr (None, Some (Errorf ''only cifs/nfsv3 protocol types are supported as dual protocol''))) \<and>
   (protocolTypes \<noteq> [] \<and> length protocolTypes \<le> 2 \<and>
    \<not> (length protocolTypes = 2 \<and> ''NFSv4.1'' \<in> set protocolTypes) \<and>
    hd protocolTypes \<notin> {''NFSv3'', ''NFSv4.1'', ''CIFS''} \<longrightarrow>
      CreateANFVolume env volumeName serviceLevel subnetID snapshotID protocolTypes
        volumeUsageQuota unixReadOnly unixReadWrite rest =
      Inr (None, Some (Errorf
        ''invalid protocol type, valid protocol types are: [NFSv3 NFSv4.1 CIFS]''))) \<and>
   CreateANFVolume env volumeName serviceLevel subnetID snapshotID [''NFSv4.1'', ''CIFS'']
     volumeUsageQuota unixReadOnly unixReadWrite rest =
     Inr (None, Some (Errorf ''only cifs/nfsv3 protocol types are supported as dual protocol'')) \<and>
   CreateANFVolume env volumeName serviceLevel subnetID snapshotID [''NFSv3'', ''CIFS'']
     volumeUsageQuota unixReadOnly unixReadWrite rest =
     Inr (CreateANFVolume_submit env volumeName serviceLevel subnetID snapshotID
            [''NFSv3'', ''CIFS''] ''NFSv3'' volumeUsageQuota unixReadOnly unixReadWrite rest)"
proof (intro conjI impI)
  assume "length protocolTypes \<ge> 3"
  then show "CreateANFVolume env volumeName serviceLevel subnetID snapshotID protocolTypes
        volumeUsageQuota unixReadOnly unixReadWrite rest =
      Inr (None, Some (Errorf ''maximum of two protocol types are supported''))"
    by (simp add: CreateANFVolume_def)
next
  assume "length protocolTypes = 2 \<and> ''NFSv4.1'' \<in> set protocolTypes"
  then show "CreateANFVolume env volumeName serviceLevel subnetID snapshotID protocolTypes
        volumeUsageQuota unixReadOnly unixReadWrite rest =
      Inr (None, Some (Errorf ''only cifs/nfsv3 protocol types are supported as dual protocol''))"
    by (simp add: CreateANFVolume_def Contains_iff)
next
  assume a: "protocolTypes \<noteq> [] \<and> length protocolTypes \<le> 2 \<and>
    \<not> (length protocolTypes = 2 \<and> ''NFSv4.1'' \<in> set protocolTypes) \<and>
    hd protocolTypes \<notin> {''NFSv3'', ''NFSv4.1'', ''CIFS''}"
  then obtain p ps where ps: "protocolTypes = p # ps" by (cases protocolTypes) auto
  from a ps have len: "\<not> length protocolTypes > 2" by simp
  from a have "length protocolTypes = 2 \<or> length protocolTypes \<le> 1" by arith
  with a have dual: "\<not> (length protocolTypes > 1 \<and> Contains protocolTypes ''NFSv4.1'')"
    by (auto simp: Contains_iff)
  from a ps have nv: "\<not> snd (FindInSlice validProtocols p)"
    by (simp add: FindInSlice_found set_validProtocols)
  have at: "at_index protocolTypes 0 = Inr p" by (simp add: at_index_def ps)
  show "CreateANFVolume env volumeName serviceLevel subnetID snapshotID protocolTypes
        volumeUsageQuota unixReadOnly unixReadWrite rest =
      Inr (None, Some (Errorf
        ''invalid protocol type, valid protocol types are: [NFSv3 NFSv4.1 CIFS]''))"
    unfolding CreateANFVolume_def invalid_protocol_message
    using len dual nv by (simp add: at and_then_def)
next
  show "CreateANFVolume env volumeName serviceLevel subnetID snapshotID [''NFSv4.1'', ''CIFS'']
     volumeUsageQuota unixReadOnly unixReadWrite rest =
     Inr (None, Some (Errorf ''only cifs/nfsv3 protocol types are supported as dual protocol''))"
    by (simp add: CreateANFVolume_def)
next
  have nv: "snd (FindInSlice validProtocols ''NFSv3'')"
    by (simp add: FindInSlice_found set_validProtocols)
  show "CreateANFVolume env volumeName serviceLevel subnetID snapshotID [''NFSv3'', ''CIFS'']
     volumeUsageQuota unixReadOnly unixReadWrite rest =
     Inr (CreateANFVolume_submit env volumeName serviceLevel subnetID snapshotID
            [''NFSv3'', ''CIFS''] ''NFSv3'' volumeUsageQuota unixReadOnly unixReadWrite rest)"
    using nv by (simp add: CreateANFVolume_def at_index_def and_then_def)
qed

theorem CreateANFVolume_protocol_validation_witness:
  "length [''NFSv3'', ''NFSv4.1'', ''CIFS''] \<ge> 3 \<and>
   CreateANFVolume cooperative ''vol1'' ''Premium'' ''subnet1'' '''' [''NFSv3'', ''NFSv4.1'', ''CIFS'']
     100 False True () =
     Inr (None, Some (Errorf ''maximum of two protocol types are supported'')) \<and>
   length [''CIFS'', ''NFSv4.1''] = 2 \<and> ''NFSv4.1'' \<in> set [''CIFS'', ''NFSv4.1''] \<and>
   CreateANFVolume cooperative ''vol1'' ''Premium'' ''subnet1'' '''' [''CIFS'', ''NFSv4.1'']
     100 False True () =
     Inr (None, Some (Errorf ''only cifs/nfsv3 protocol types are supported as dual protocol'')) \<and>
   hd [''SMB''] \<notin> {''NFSv3'', ''NFSv4.1'', ''CIFS''} \<and>
   CreateANFVolume cooperative ''vol1'' ''Premium'' ''subnet1'' '''' [''SMB'']
     100 False True () =
     Inr (None, Some (Errorf
       ''invalid protocol type, valid protocol types are: [NFSv3 NFSv4.1 CIFS]'')) \<and>
   CreateANFVolume cooperative ''vol1'' ''Premium'' ''subnet1'' '''' [''NFSv3'', ''CIFS'']
     100 False True () = Inr (Some ''vol1'', None)"
proof -
  note th = CreateANFVolume_protocol_validation
    [of _ cooperative "''vol1''" "''Premium''" "''subnet1''" "''''" 100 False True "()"]
  have h1: "length [''NFSv3'', ''NFSv4.1'', ''CIFS''] \<ge> 3" by simp
  have h2: "length [''CIFS'', ''NFSv4.1''] = 2 \<and> ''NFSv4.1'' \<in> set [''CIFS'', ''NFSv4.1'']"
    by simp
  have h3: "[''SMB''] \<noteq> [] \<and> length [''SMB''] \<le> 2 \<and>
    \<not> (length [''SMB''] = 2 \<and> ''NFSv4.1'' \<in> set [''SMB'']) \<and>
    hd [''SMB''] \<notin> {''NFSv3'', ''NFSv4.1'', ''CIFS''}" by simp
  have c1: "CreateANFVolume cooperative ''vol1'' ''Premium'' ''subnet1'' ''''
     [''NFSv3'', ''NFSv4.1'', ''CIFS''] 100 False True () =
     Inr (None, Some (Errorf ''maximum of two protocol types are supported''))"
    by (rule th [THEN conjunct1, THEN mp, OF h1])
  have c2: "CreateANFVolume cooperative ''vol1'' ''Premium'' ''subnet1'' '''' [''CIFS'', ''NFSv4.1'']
     100 False True () =
     Inr (None, Some (Errorf ''only cifs/nfsv3 protocol types are supported as dual protocol''))"
    by (rule th [THEN conjunct2, THEN conjunct1, THEN mp, OF h2])
  have c3: "CreateANFVolume cooperative ''vol1'' ''Premium'' ''subnet1'' '''' [''SMB'']
     100 False True () =
     Inr (None, Some (Errorf
       ''invalid protocol type, valid protocol types are: [NFSv3 NFSv4.1 CIFS]''))"
    by (rule th [THEN conjunct2, THEN conjunct2, THEN conjunct1, THEN mp, OF h3])
  have sub: "CreateANFVolume_submit cooperative ''vol1'' ''Premium'' ''subnet1'' ''''
            [''NFSv3'', ''CIFS''] ''NFSv3'' 100 False True () = (Some ''vol1'', None)"
    by code_simp
  have c4: "CreateANFVolume cooperative ''vol1'' ''Premium'' ''subnet1'' [] [''NFSv3'', ''CIFS'']
     100 False True () = Inr (Some ''vol1'', None)"
    by (rule trans [OF th [of "[]", THEN conjunct2, THEN conjunct2, THEN conjunct2, THEN conjunct2]
          arg_cong [OF sub, of Inr]])
  have h3': "hd [''SMB''] \<notin> {''NFSv3'', ''NFSv4.1'', ''CIFS''}" by simp
  have h2a: "length [''CIFS'', ''NFSv4.1''] = 2" by simp
  have h2b: "''NFSv4.1'' \<in> set [''CIFS'', ''NFSv4.1'']" by simp
  show ?thesis
    by (rule conjI [OF h1 conjI [OF c1 conjI [OF h2a conjI [OF h2b conjI [OF c2
          conjI [OF h3' conjI [OF c3 c4]]]]]]])
qed

section \<open>Errors of the completion wait\<close>

text \<open>
  When the client is built, the mutation is accepted and the wait for its completion
  returns an error, the operations with a wait return a nil resource and an error, the
  wrapped one or, in \<open>UpdateANFVolume\<close>, the error of the wait as it is. The exception is
  \<open>UpdateANFSnapshotPolicy\<close>.
\<close>

lemma completion_error_reported:
  assumes "getClient env = None" and "beginOp env q = None"
    and "pollUntilDone env = (resp, Some e)"
  shows "CreateANFAccount env q =
           (None, Some (Errorf (''cannot get the account create or update future response: '' @
                                message e)))"
    and "UpdateANFVolume env q = (None, Some e)"
    and "CreateANFSnapshot env q =
           (None, Some (Errorf (''cannot get the snapshot create or update future response: '' @
                                message e)))"
  using assms
  by (simp_all add: CreateANFAccount_def UpdateANFVolume_def CreateANFSnapshot_def)

lemma completion_error_reported_pool:
  assumes "getClient env = None" and "validateANFServiceLevel serviceLevel = (svcLevel, None)"
    and "beginOp env (svcLevel, q) = None" and "pollUntilDone env = (resp, Some e)"
  shows "CreateANFCapacityPool env serviceLevel q =
           (None, Some (Errorf (''cannot get the pool create or update future response: '' @
                                message e)))"
  using assms by (simp add: CreateANFCapacityPool_def)

lemma completion_error_reported_volume:
  assumes "getClient env = None" and "validateANFServiceLevel serviceLevel = (svcLevel, None)"
    and "\<And>q. beginOp env q = None" and "pollUntilDone env = (resp, Some e)"
  shows "CreateANFVolume_submit env volumeName serviceLevel subnetID snapshotID protocolTypes
           primary volumeUsageQuota unixReadOnly unixReadWrite rest =
           (None, Some (Errorf (''cannot get the volume create or update future response: '' @
                                message e)))"
  using assms by (simp add: CreateANFVolume_submit_def Let_def)

lemma UpdateANFSnapshotPolicy_ignores_wait:
  assumes "getClient env = None" and "beginOp env q = None"
  shows "UpdateANFSnapshotPolicy env q = (Some (fst (pollUntilDone env)), None)"
  using assms by (simp add: UpdateANFSnapshotPolicy_def split: prod.splits)

text \<open>
  Claim C5. The claim has every create and update operation return a non-nil error
  whenever the wait for completion reports one. \<open>UpdateANFSnapshotPolicy\<close> does not: on a
  remote side that accepts the update and whose wait fails with the error
  \<open>operation failed\<close>, it returns a pointer to the zero policy of the response and the nil
  error.
\<close>

theorem UpdateANFSnapshotPolicy_swallows_completion_error:
  "snd (pollUntilDone completion_fails) = Some (Errorf ''operation failed'') \<and>
   UpdateANFSnapshotPolicy completion_fails () = (Some '''', None)"
  by (simp add: UpdateANFSnapshotPolicy_def completion_fails_def)

section \<open>The convergence pollers\<close>

text \<open>
  No classifier true means no branch of the chain taken; the provider token missing
  means no classifier true.
\<close>

lemma dispatch_unclassified:
  assumes "\<not> IsANFSnapshot r" "\<not> IsANFVolume r" "\<not> IsANFCapacityPool r"
    "\<not> IsANFSnapshotPolicy r" "\<not> IsANFAccount r"
  shows "dispatch r c = Inr None"
  using assms by (simp add: dispatch_def)

lemma no_provider_token_unclassified:
  assumes "Index r netAppResourceProviderName = - 1"
  shows "\<not> IsANFSnapshot r \<and> \<not> IsANFVolume r \<and> \<not> IsANFCapacityPool r \<and>
         \<not> IsANFSnapshotPolicy r \<and> \<not> IsANFAccount r"
  using assms
  by (simp add: IsANFResource_def IsANFSnapshot_def IsANFVolume_def IsANFCapacityPool_def
      IsANFSnapshotPolicy_def IsANFAccount_def)

text \<open>
  The loops, from any iteration \<open>i\<close> on, for an identifier whose request \<open>rq\<close> is built
  without a panic. Waiting for absence ends with nil at the first iteration \<open>k\<close> whose
  request fails, after \<open>k - i + 1\<close> sleeps and requests, and with the error of the
  exceeded retries when no request fails. Waiting for presence ends with nil at the first
  request that succeeds, and with an error that carries the number of retries and the
  error of the last request when none succeeds.
\<close>

lemma WaitForNoANFResource_loop_first_gone:
  assumes "dispatch r c = Inr (Some rq)" and "i \<le> k" and "k < retries"
    and "\<forall>j. i \<le> j \<and> j < k \<longrightarrow> remote j rq = None" and "remote k rq \<noteq> None"
  shows "WaitForNoANFResource_loop remote r iv retries c i err evs =
           (Inr None, evs @ concat (replicate (nat (k - i) + 1) [Sleep iv, Call rq]))"
  using assms
proof (induction remote r iv retries c i err evs rule: WaitForNoANFResource_loop.induct)
  case (1 remote r iv retries c i err evs)
  from "1.prems" have lt: "i < retries" by simp
  show ?case
  proof (cases "i = k")
    case True
    with "1.prems" lt show ?thesis
      by (subst WaitForNoANFResource_loop.simps) simp
  next
    case False
    with "1.prems" have ik: "i + 1 \<le> k" and nil: "remote i rq = None" by simp_all
    from ik have n: "nat (k - i) = Suc (nat (k - (i + 1)))" by simp
    from "1.prems" have later: "\<forall>j. i + 1 \<le> j \<and> j < k \<longrightarrow> remote j rq = None" by simp
    have "WaitForNoANFResource_loop remote r iv retries c (i + 1) (remote i rq)
            (evs @ [Sleep iv, Call rq]) =
          (Inr None, (evs @ [Sleep iv, Call rq]) @
             concat (replicate (nat (k - (i + 1)) + 1) [Sleep iv, Call rq]))"
      using lt "1.prems"(1,3,5) nil later ik by (intro "1.IH"(2)) simp_all
    then show ?thesis
      using lt "1.prems"(1) nil n
      by (subst WaitForNoANFResource_loop.simps) simp
  qed
qed

lemma WaitForNoANFResource_loop_exhausted:
  assumes "dispatch r c = Inr (Some rq)"
    and "\<forall>j. i \<le> j \<and> j < retries \<longrightarrow> remote j rq = None"
  shows "WaitForNoANFResource_loop remote r iv retries c i err evs =
           (Inr (Some (Errorf (''exceeded number of retries: '' @ fmt_int retries))),
            evs @ concat (replicate (nat (retries - i)) [Sleep iv, Call rq]))"
  using assms
proof (induction remote r iv retries c i err evs rule: WaitForNoANFResource_loop.induct)
  case (1 remote r iv retries c i err evs)
  show ?case
  proof (cases "i < retries")
    case True
    with "1.prems" have nil: "remote i rq = None" by simp
    from True have n: "nat (retries - i) = Suc (nat (retries - (i + 1)))" by simp
    from "1.prems" have later: "\<forall>j. i + 1 \<le> j \<and> j < retries \<longrightarrow> remote j rq = None" by simp
    have "WaitForNoANFResource_loop remote r iv retries c (i + 1) (remote i rq)
            (evs @ [Sleep iv, Call rq]) =
          (Inr (Some (Errorf (''exceeded number of retries: '' @ fmt_int retries))),
           (evs @ [Sleep iv, Call rq]) @
             concat (replicate (nat (retries - (i + 1))) [Sleep iv, Call rq]))"
      using True "1.prems"(1) nil later by (intro "1.IH"(2)) simp_all
    then show ?thesis
      using True "1.prems"(1) nil n
      by (subst WaitForNoANFResource_loop.simps) simp
  next
    case False
    then show ?thesis by (subst WaitForNoANFResource_loop.simps) simp
  qed
qed

lemma WaitForNoANFResource_loop_unclassified:
  assumes "dispatch r c = Inr None"
  shows "WaitForNoANFResource_loop remote r iv retries c i None evs =
           (Inr (Some (Errorf (''exceeded number of retries: '' @ fmt_int retries))),
            evs @ replicate (nat (retries - i)) (Sleep iv))"
  using assms
proof (induction remote r iv retries c i "None :: go_error option" evs
    rule: WaitForNoANFResource_loop.induct)
  case (1 remote r iv retries c i evs)
  show ?case
  proof (cases "i < retries")
    case True
    from True have n: "nat (retries - i) = Suc (nat (retries - (i + 1)))" by simp
    have "WaitForNoANFResource_loop remote r iv retries c (i + 1) None (evs @ [Sleep iv]) =
          (Inr (Some (Errorf (''exceeded number of retries: '' @ fmt_int retries))),
           (evs @ [Sleep iv]) @ replicate (nat (retries - (i + 1))) (Sleep iv))"
      using True "1.prems" by (intro "1.hyps"(1)) simp_all
    then show ?thesis
      using True "1.prems" n
      by (subst WaitForNoANFResource_loop.simps) simp
  next
    case False
    then show ?thesis by (subst WaitForNoANFResource_loop.simps) simp
  qed
qed

lemma WaitForANFResource_loop_first_found:
  assumes "dispatch r c = Inr (Some rq)" and "i \<le> k" and "k < retries"
    and "\<forall>j. i \<le> j \<and> j < k \<longrightarrow> remote j rq \<noteq> None" and "remote k rq = None"
  shows "WaitForANFResource_loop remote r iv retries c i err evs =
           (Inr None, evs @ concat (replicate (nat (k - i) + 1) [Sleep iv, Call rq]))"
  using assms
proof (induction remote r iv retries c i err evs rule: WaitForANFResource_loop.induct)
  case (1 remote r iv retries c i err evs)
  from "1.prems" have lt: "i < retries" by simp
  show ?case
  proof (cases "i = k")
    case True
    with "1.prems" lt show ?thesis
      by (subst WaitForANFResource_loop.simps) simp
  next
    case False
    with "1.prems" have ik: "i + 1 \<le> k" and nil: "remote i rq \<noteq> None" by simp_all
    from ik have n: "nat (k - i) = Suc (nat (k - (i + 1)))" by simp
    from "1.prems" have later: "\<forall>j. i + 1 \<le> j \<and> j < k \<longrightarrow> remote j rq \<noteq> None" by simp
    have "WaitForANFResource_loop remote r iv retries c (i + 1) (remote i rq)
            (evs @ [Sleep iv, Call rq]) =
          (Inr None, (evs @ [Sleep iv, Call rq]) @
             concat (replicate (nat (k - (i + 1)) + 1) [Sleep iv, Call rq]))"
      using lt "1.prems"(1,3,5) nil later ik by (intro "1.IH"(2)) simp_all
    then show ?thesis
      using lt "1.prems"(1) nil n
      by (subst WaitForANFResource_loop.simps) simp
  qed
qed

lemma WaitForANFResource_loop_exhausted:
  assumes "dispatch r c = Inr (Some rq)"
    and "\<forall>j. i \<le> j \<and> j < retries \<longrightarrow> remote j rq \<noteq> None"
  shows "WaitForANFResource_loop remote r iv retries c i err evs =
           (Inr (Some (Errorf (''resource still not found after number of retries: '' @
                               fmt_int retries @ '', error: '' @
                               fmt_error (if i < retries then remote (retries - 1) rq else err)))),
            evs @ concat (replicate (nat (retries - i)) [Sleep iv, Call rq]))"
  using assms
proof (induction remote r iv retries c i err evs rule: WaitForANFResource_loop.induct)
  case (1 remote r iv retries c i err evs)
  show ?case
  proof (cases "i < retries")
    case True
    with "1.prems" have nil: "remote i rq \<noteq> None" by simp
    from True have n: "nat (retries - i) = Suc (nat (retries - (i + 1)))" by simp
    from "1.prems" have later: "\<forall>j. i + 1 \<le> j \<and> j < retries \<longrightarrow> remote j rq \<noteq> None" by simp
    have last: "(if i + 1 < retries then remote (retries - 1) rq else remote i rq) =
                remote (retries - 1) rq"
    proof (cases "i + 1 < retries")
      case True then show ?thesis by simp
    next
      case False
      with \<open>i < retries\<close> have "retries - 1 = i" by simp
      then show ?thesis by simp
    qed
    have "WaitForANFResource_loop remote r iv retries c (i + 1) (remote i rq)
            (evs @ [Sleep iv, Call rq]) =
          (Inr (Some (Errorf (''resource still not found after number of retries: '' @
                               fmt_int retries @ '', error: '' @
                               fmt_error (if i + 1 < retries then remote (retries - 1) rq
                                          else remote i rq)))),
           (evs @ [Sleep iv, Call rq]) @
             concat (replicate (nat (retries - (i + 1))) [Sleep iv, Call rq]))"
      using True "1.prems"(1) nil later by (intro "1.IH"(2)) simp_all
    then show ?thesis
      using True "1.prems"(1) nil n
      by (subst WaitForANFResource_loop.simps) (simp add: last)
  next
    case False
    then show ?thesis by (subst WaitForANFResource_loop.simps) simp
  qed
qed

lemma WaitForANFResource_loop_unclassified:
  assumes "dispatch r c = Inr None" and "i < retries"
  shows "WaitForANFResource_loop remote r iv retries c i None evs = (Inr None, evs @ [Sleep iv])"
  using assms by (subst WaitForANFResource_loop.simps) simp

lemma fmt_int_3: "fmt_int 3 = ''3''"
  by code_simp

lemma three_rounds: "concat (replicate 3 [a, b]) = [a, b, a, b, a, b]"
  by (simp add: eval_nat_numeral)

text \<open>
  With three retries, on an identifier in ASCII whose request is built: the four runs that the
  specification describes, with their sleeps and requests in order.
\<close>

lemma pollers_three_retries:
  assumes ascii: "isASCII r" and built: "dispatch r c = Inr (Some rq)"
  shows "(\<And>i. remote i rq \<noteq> None) \<Longrightarrow>
           WaitForNoANFResource remote r iv 3 c = (Inr None, [Sleep iv, Call rq])"
    and "(\<And>i. remote i rq = None) \<Longrightarrow>
           WaitForNoANFResource remote r iv 3 c =
             (Inr (Some (Errorf ''exceeded number of retries: 3'')),
              [Sleep iv, Call rq, Sleep iv, Call rq, Sleep iv, Call rq])"
    and "remote 0 rq = None \<Longrightarrow>
           WaitForANFResource remote r iv 3 c = (Inr None, [Sleep iv, Call rq])"
    and "(\<And>i. remote i rq \<noteq> None) \<Longrightarrow>
           WaitForANFResource remote r iv 3 c =
             (Inr (Some (Errorf (''resource still not found after number of retries: 3, error: '' @
                                 fmt_error (remote 2 rq)))),
              [Sleep iv, Call rq, Sleep iv, Call rq, Sleep iv, Call rq])"
proof -
  show "WaitForNoANFResource remote r iv 3 c = (Inr None, [Sleep iv, Call rq])"
    if "\<And>i. remote i rq \<noteq> None"
  proof -
    have "WaitForNoANFResource_loop remote r iv 3 c 0 None [] =
            (Inr None, [] @ concat (replicate (nat (0 - 0) + 1) [Sleep iv, Call rq]))"
      by (rule WaitForNoANFResource_loop_first_gone [where k = 0]) (use built that in auto)
    then show ?thesis by (simp add: WaitForNoANFResource_def)
  qed
  show "WaitForNoANFResource remote r iv 3 c =
          (Inr (Some (Errorf ''exceeded number of retries: 3'')),
           [Sleep iv, Call rq, Sleep iv, Call rq, Sleep iv, Call rq])"
    if "\<And>i. remote i rq = None"
    using WaitForNoANFResource_loop_exhausted [OF built, of 0 3 remote iv None "[]"] that
    by (simp add: WaitForNoANFResource_def fmt_int_3 three_rounds)
  show "WaitForANFResource remote r iv 3 c = (Inr None, [Sleep iv, Call rq])"
    if "remote 0 rq = None"
  proof -
    have "WaitForANFResource_loop remote r iv 3 c 0 None [] =
            (Inr None, [] @ concat (replicate (nat (0 - 0) + 1) [Sleep iv, Call rq]))"
      by (rule WaitForANFResource_loop_first_found [where k = 0]) (use built that in auto)
    then show ?thesis by (simp add: WaitForANFResource_def)
  qed
  show "WaitForANFResource remote r iv 3 c =
          (Inr (Some (Errorf (''resource still not found after number of retries: 3, error: '' @
                              fmt_error (remote 2 rq)))),
           [Sleep iv, Call rq, Sleep iv, Call rq, Sleep iv, Call rq])"
    if "\<And>i. remote i rq \<noteq> None"
    using WaitForANFResource_loop_exhausted [OF built, of 0 3 remote iv None "[]"] that
    by (simp add: WaitForANFResource_def fmt_int_3 three_rounds)
qed

lemma dispatch_snapshot_example:
  "dispatch ''/subscriptions/sub1/resourceGroups/rg1/providers/Microsoft.NetApp/netAppAccounts/acc1/capacityPools/pool1/volumes/vol1/snapshots/snap1'' False
   = Inr (Some (SnapshotsGet ''rg1'' ''acc1'' ''pool1'' ''vol1'' ''snap1''))"
  by code_simp

text \<open>
  Claim C2. The claim has the pollers return on every identifier that a classifier
  accepts: nil after one sleep when waiting for absence and every request fails. The
  identifier of the volume \<open>volumes-01\<close> in the resource group \<open>volumes\<close> is classified as
  a volume; after the first sleep the arguments of the request are parsed, \<open>GetANFVolume\<close>
  panics, and neither poller returns: no request is sent.
\<close>

theorem pollers_panic_on_classified_path:
  "IsANFVolume ''/subscriptions/sub1/resourceGroups/volumes/providers/Microsoft.NetApp/netAppAccounts/acc1/capacityPools/pool1/volumes/volumes-01'' \<and>
   WaitForNoANFResource always_gone
     ''/subscriptions/sub1/resourceGroups/volumes/providers/Microsoft.NetApp/netAppAccounts/acc1/capacityPools/pool1/volumes/volumes-01''
     5 3 False = (Inl IndexOutOfRange, [Sleep 5]) \<and>
   WaitForANFResource always_found
     ''/subscriptions/sub1/resourceGroups/volumes/providers/Microsoft.NetApp/netAppAccounts/acc1/capacityPools/pool1/volumes/volumes-01''
     5 3 False = (Inl IndexOutOfRange, [Sleep 5])"
  by code_simp

text \<open>
  Claim C8, as amended. On an identifier that no classifier accepts, no request is
  built in any iteration and \<open>err\<close> stays nil. Waiting for presence with at least one retry
  returns nil after exactly one sleep and no request; waiting for absence sleeps once per
  retry, sends no request and returns the error of the exceeded retries.
\<close>

theorem pollers_on_unclassified_path:
  assumes "\<not> IsANFSnapshot r" and "\<not> IsANFVolume r" and "\<not> IsANFCapacityPool r"
    and "\<not> IsANFSnapshotPolicy r" and "\<not> IsANFAccount r"
  shows "dispatch r c = Inr None \<and>
         (0 < retries \<longrightarrow> WaitForANFResource remote r iv retries c = (Inr None, [Sleep iv])) \<and>
         WaitForNoANFResource remote r iv retries c =
           (Inr (Some (Errorf (''exceeded number of retries: '' @ fmt_int retries))),
            replicate (nat retries) (Sleep iv))"
proof -
  have d: "dispatch r c = Inr None" using assms by (rule dispatch_unclassified)
  have p: "WaitForANFResource remote r iv retries c = (Inr None, [Sleep iv])" if "0 < retries"
    using WaitForANFResource_loop_unclassified [OF d that, of remote iv "[]"]
    by (simp add: WaitForANFResource_def)
  have a: "WaitForNoANFResource remote r iv retries c =
           (Inr (Some (Errorf (''exceeded number of retries: '' @ fmt_int retries))),
            replicate (nat retries) (Sleep iv))"
    using WaitForNoANFResource_loop_unclassified [OF d, of remote iv retries 0 "[]"]
    by (simp add: WaitForNoANFResource_def)
  from d p a show ?thesis by simp
qed

theorem pollers_on_unclassified_path_witness:
  "\<not> IsANFSnapshot ''/subscriptions/sub1/resourceGroups/rg1/providers/Microsoft.Network/virtualNetworks/vnet1'' \<and>
   \<not> IsANFVolume ''/subscriptions/sub1/resourceGroups/rg1/providers/Microsoft.Network/virtualNetworks/vnet1'' \<and>
   \<not> IsANFCapacityPool ''/subscriptions/sub1/resourceGroups/rg1/providers/Microsoft.Network/virtualNetworks/vnet1'' \<and>
   \<not> IsANFSnapshotPolicy ''/subscriptions/sub1/resourceGroups/rg1/providers/Microsoft.Network/virtualNetworks/vnet1'' \<and>
   \<not> IsANFAccount ''/subscriptions/sub1/resourceGroups/rg1/providers/Microsoft.Network/virtualNetworks/vnet1'' \<and>
   (0 :: int) < 3 \<and>
   WaitForANFResource always_gone
     ''/subscriptions/sub1/resourceGroups/rg1/providers/Microsoft.Network/virtualNetworks/vnet1''
     5 3 False = (Inr None, [Sleep 5]) \<and>
   WaitForNoANFResource always_gone
     ''/subscriptions/sub1/resourceGroups/rg1/providers/Microsoft.Network/virtualNetworks/vnet1''
     5 3 False =
     (Inr (Some (Errorf ''exceeded number of retries: 3'')), [Sleep 5, Sleep 5, Sleep 5])"
proof -
  let ?p = "''/subscriptions/sub1/resourceGroups/rg1/providers/Microsoft.Network/virtualNetworks/vnet1''"
  have h1: "\<not> IsANFSnapshot ?p" by code_simp
  have h2: "\<not> IsANFVolume ?p" by code_simp
  have h3: "\<not> IsANFCapacityPool ?p" by code_simp
  have h4: "\<not> IsANFSnapshotPolicy ?p" by code_simp
  have h5: "\<not> IsANFAccount ?p" by code_simp
  have h6: "(0 :: int) < 3" by simp
  note th = pollers_on_unclassified_path [OF h1 h2 h3 h4 h5, of False 3 always_gone 5]
  have r3: "replicate (nat 3) (Sleep 5) = [Sleep 5, Sleep 5, Sleep 5]"
    by (simp add: eval_nat_numeral)
  have c1: "WaitForANFResource always_gone ?p 5 3 False = (Inr None, [Sleep 5])"
    by (rule th [THEN conjunct2, THEN conjunct1, THEN mp, OF h6])
  have c2: "WaitForNoANFResource always_gone ?p 5 3 False =
     (Inr (Some (Errorf ''exceeded number of retries: 3'')), [Sleep 5, Sleep 5, Sleep 5])"
    using th [THEN conjunct2, THEN conjunct2] by (simp only: fmt_int_3 r3 append.simps)
  show ?thesis
    by (rule conjI [OF h1 conjI [OF h2 conjI [OF h3 conjI [OF h4 conjI [OF h5
          conjI [OF h6 conjI [OF c1 c2]]]]]]])
qed

text \<open>
  Claim C8, as stated, has waiting for presence return nil after one sleep on every such
  identifier. With no retry the loop is not entered: there is no sleep and the error of
  the exhausted retries is returned, with \<open><nil>\<close> for the last error.
\<close>

theorem WaitForANFResource_no_retries:
  "\<not> IsANFSnapshot ''/subscriptions/sub1/resourceGroups/rg1/providers/Microsoft.Network/virtualNetworks/vnet1'' \<and>
   \<not> IsANFVolume ''/subscriptions/sub1/resourceGroups/rg1/providers/Microsoft.Network/virtualNetworks/vnet1'' \<and>
   \<not> IsANFCapacityPool ''/subscriptions/sub1/resourceGroups/rg1/providers/Microsoft.Network/virtualNetworks/vnet1'' \<and>
   \<not> IsANFSnapshotPolicy ''/subscriptions/sub1/resourceGroups/rg1/providers/Microsoft.Network/virtualNetworks/vnet1'' \<and>
   \<not> IsANFAccount ''/subscriptions/sub1/resourceGroups/rg1/providers/Microsoft.Network/virtualNetworks/vnet1'' \<and>
   WaitForANFResource always_found
     ''/subscriptions/sub1/resourceGroups/rg1/providers/Microsoft.Network/virtualNetworks/vnet1''
     5 0 False =
     (Inr (Some (Errorf ''resource still not found after number of retries: 0, error: <nil>'')),
      [])"
  by code_simp

end
